theory Spec2Isabelle
  imports Main "HOL-Library.Char_ord" "HOL-Library.List_Lexorder" "HOL-Library.AList"
begin

section \<open>Primitives of the Go language and standard library used by rhttp\<close>

text \<open>
  Go strings are byte sequences; they are modelled as \<^typ>\<open>string\<close> (a list of 8-bit
  characters).  The order on strings is the byte-wise lexicographic order, which is what
  Go's comparison operators on strings compute.  Every character the router treats
  specially is ASCII, and in UTF-8 no byte of a multi-byte rune is ASCII, so iterating a
  string byte by byte visits the special characters at the same offsets as Go's
  rune-wise \<^verbatim>\<open>range\<close> loop does.
\<close>

text \<open>The slice expression \<^verbatim>\<open>s[lo:hi]\<close>.\<close>

definition slice :: "'a list \<Rightarrow> nat \<Rightarrow> nat \<Rightarrow> 'a list" where
  "slice s lo hi = take (hi - lo) (drop lo s)"

text \<open>\<^verbatim>\<open>strings.HasPrefix(s, p)\<close>.\<close>

definition HasPrefix :: "string \<Rightarrow> string \<Rightarrow> bool" where
  "HasPrefix s p = (take (length p) s = p)"

text \<open>
  \<^verbatim>\<open>sort.Search(n, f)\<close>: the binary search of the standard library,
  \<^verbatim>\<open>i, j := 0, n; for i < j { h := (i+j)/2; if !f(h) { i = h+1 } else { j = h } }; return i\<close>.
\<close>

function Search_loop :: "(nat \<Rightarrow> bool) \<Rightarrow> nat \<Rightarrow> nat \<Rightarrow> nat" where
  "Search_loop f i j =
     (if i < j
      then (if \<not> f ((i + j) div 2)
            then Search_loop f ((i + j) div 2 + 1) j
            else Search_loop f i ((i + j) div 2))
      else i)"
  by pat_completeness auto
termination
  by (relation "measure (\<lambda>(f, i, j). j - i)") auto

declare Search_loop.simps [simp del]

definition Search :: "nat \<Rightarrow> (nat \<Rightarrow> bool) \<Rightarrow> nat" where
  "Search n f = Search_loop f 0 n"

text \<open>
  \<^verbatim>\<open>strconv.ParseUint(s, 10, 64)\<close> and \<^verbatim>\<open>strconv.ParseInt(s, 10, 64)\<close>: one or more
  decimal digits, for \<^verbatim>\<open>ParseInt\<close> after an optional sign; a value outside the 64-bit
  range is an error.  \<open>None\<close> stands for the error return.
\<close>

definition isDigit :: "char \<Rightarrow> bool" where
  "isDigit c = (CHR ''0'' \<le> c \<and> c \<le> CHR ''9'')"

definition digitsValue :: "string \<Rightarrow> nat" where
  "digitsValue s = foldl (\<lambda>n c. 10 * n + (of_char c - of_char CHR ''0'')) 0 s"

definition ParseUint :: "string \<Rightarrow> nat option" where
  "ParseUint s =
     (if s = [] \<or> \<not> list_all isDigit s then None
      else if digitsValue s < 2 ^ 64 then Some (digitsValue s) else None)"

definition ParseInt :: "string \<Rightarrow> int option" where
  "ParseInt s =
     (case s of
        [] \<Rightarrow> None
      | c # cs \<Rightarrow>
          (if c = CHR ''-''
           then (case ParseUint cs of
                   None \<Rightarrow> None
                 | Some un \<Rightarrow> if un \<le> 2 ^ 63 then Some (- int un) else None)
           else (case ParseUint (if c = CHR ''+'' then cs else s) of
                   None \<Rightarrow> None
                 | Some un \<Rightarrow> if un < 2 ^ 63 then Some (int un) else None)))"

text \<open>
  Floating-point numbers are not interpreted: \<open>float64\<close> is an unspecified type and
  \<^verbatim>\<open>strconv.ParseFloat(s, 64)\<close> is a parameter \<open>pf\<close> of the dispatcher
  (\<open>None\<close> for the error return).
\<close>

typedecl float64

type_synonym ParseFloat = "string \<Rightarrow> float64 option"

text \<open>
  A compiled \<^verbatim>\<open>*regexp.Regexp\<close> is used by the router only through
  \<^verbatim>\<open>FindStringSubmatchIndex\<close>, so it is modelled as that function: the list of
  capture offsets (\<open>-1\<close> for a group that did not take part), empty when the string does
  not match.  \<^verbatim>\<open>regexp.Compile\<close> is a parameter \<open>rc\<close> of the pattern compiler
  (\<open>None\<close> for the error return).
\<close>

type_synonym Regexp = "string \<Rightarrow> int list"

type_synonym Compile = "string \<Rightarrow> Regexp option"

text \<open>\<^verbatim>\<open>reflect.Kind\<close>.\<close>

datatype Kind =
    reflect_Invalid | reflect_Bool
  | reflect_Int | reflect_Int8 | reflect_Int16 | reflect_Int32 | reflect_Int64
  | reflect_Uint | reflect_Uint8 | reflect_Uint16 | reflect_Uint32 | reflect_Uint64
  | reflect_Uintptr
  | reflect_Float32 | reflect_Float64 | reflect_Complex64 | reflect_Complex128
  | reflect_Array | reflect_Chan | reflect_Func | reflect_Interface | reflect_Map
  | reflect_Ptr | reflect_Slice | reflect_String | reflect_Struct | reflect_UnsafePointer

text \<open>
  A struct type as reflection shows it: its fields in order, each with its name, the
  kind of its type and the value of its \<^verbatim>\<open>rhttp\<close> tag (empty when the field has none).
\<close>

record StructField =
  Name :: string
  FieldKind :: Kind
  Tag :: string

text \<open>
  The value of a field of the parameter struct.  \<open>Zero\<close> is the zero value
  \<^verbatim>\<open>reflect.New\<close> leaves in a field that is never set.  \<^verbatim>\<open>SetInt\<close> and \<^verbatim>\<open>SetUint\<close>
  convert the 64-bit value to the field's width (\<^verbatim>\<open>int\<close> and \<^verbatim>\<open>uint\<close> taken as 64 bits
  wide); \<^verbatim>\<open>SetFloat\<close> on a \<^verbatim>\<open>float32\<close> field converts to \<^verbatim>\<open>float32\<close>, kept symbolic.
\<close>

datatype fieldValue =
    Zero
  | IntVal int
  | UintVal nat
  | Float32Val float64
  | Float64Val float64
  | StringVal string

definition intBits :: "Kind \<Rightarrow> nat" where
  "intBits k =
     (if k = reflect_Int8 \<or> k = reflect_Uint8 then 8
      else if k = reflect_Int16 \<or> k = reflect_Uint16 then 16
      else if k = reflect_Int32 \<or> k = reflect_Uint32 then 32
      else 64)"

definition SetInt :: "Kind \<Rightarrow> int \<Rightarrow> fieldValue" where
  "SetInt k x = IntVal ((x + 2 ^ (intBits k - 1)) mod 2 ^ intBits k - 2 ^ (intBits k - 1))"

definition SetUint :: "Kind \<Rightarrow> nat \<Rightarrow> fieldValue" where
  "SetUint k x = UintVal (x mod 2 ^ intBits k)"

definition SetFloat :: "Kind \<Rightarrow> float64 \<Rightarrow> fieldValue" where
  "SetFloat k x = (if k = reflect_Float32 then Float32Val x else Float64Val x)"


section \<open>The pattern compiler\<close>

text \<open>
  \<^verbatim>\<open>regexp.QuoteMeta\<close> of the standard library: a backslash is put before each of
  the characters \<^verbatim>\<open>\.+*?()|[]{}^$\<close>.
\<close>

definition special :: "char \<Rightarrow> bool" where
  "special c = (c \<in> set [CHR 0x5C, CHR ''.'', CHR ''+'', CHR ''*'', CHR ''?'', CHR ''('',
                           CHR '')'', CHR ''|'', CHR ''['', CHR '']'', CHR ''{'', CHR ''}'',
                           CHR ''^'', CHR ''$''])"

fun QuoteMeta :: "string \<Rightarrow> string" where
  "QuoteMeta [] = []"
| "QuoteMeta (c # cs) = (if special c then CHR 0x5C # c # QuoteMeta cs else c # QuoteMeta cs)"

text \<open>
  \<^verbatim>\<open>removeEscapes\<close>: each backslash is dropped and the byte after it is kept, whatever
  it is; the scan goes on after that byte.
\<close>

fun removeEscapes :: "string \<Rightarrow> string" where
  "removeEscapes [] = []"
| "removeEscapes [c] = (if c = CHR 0x5C then [] else [c])"
| "removeEscapes (c # d # s) =
     (if c = CHR 0x5C then d # removeEscapes s else c # removeEscapes (d # s))"

text \<open>
  \<^verbatim>\<open>allowedName\<close>: a match of \<^verbatim>\<open>^[a-zA-Z_]\w*$\<close>, where \<^verbatim>\<open>\w\<close> is \<^verbatim>\<open>[0-9A-Za-z_]\<close>.
\<close>

definition isLetter :: "char \<Rightarrow> bool" where
  "isLetter c = ((CHR ''a'' \<le> c \<and> c \<le> CHR ''z'') \<or> (CHR ''A'' \<le> c \<and> c \<le> CHR ''Z'') \<or> c = CHR ''_'')"

definition isWord :: "char \<Rightarrow> bool" where
  "isWord c = (isLetter c \<or> isDigit c)"

definition allowedName :: "string \<Rightarrow> bool" where
  "allowedName nm = (case nm of [] \<Rightarrow> False | c # cs \<Rightarrow> isLetter c \<and> list_all isWord cs)"

definition allowedType :: "Kind \<Rightarrow> bool" where
  "allowedType k = (k \<in> set [reflect_Int, reflect_Int8, reflect_Int16, reflect_Int32, reflect_Int64,
                            reflect_Uint, reflect_Uint8, reflect_Uint16, reflect_Uint32, reflect_Uint64,
                            reflect_Float32, reflect_Float64, reflect_String])"

datatype errorCause =
    Unterminated
  | MissingVariableName
  | InvalidVariableName
  | UndefinedVariable
  | UnmatchedRightParen

record PatternCompileError =
  cause :: errorCause
  currentGroup :: string
  pattern :: string
  name :: string
  at :: nat

text \<open>
  The error of \<^verbatim>\<open>compilePattern\<close> is a \<^verbatim>\<open>*PatternCompileError\<close> or the error of
  \<^verbatim>\<open>regexp.Compile\<close>.
\<close>

datatype compileError = PatternError PatternCompileError | RegexpError

text \<open>
  The local variables of \<^verbatim>\<open>compilePattern\<close> that live across iterations of its loop
  (each field is the variable of the same name, with the prefix \<open>v_\<close>).
  \<^verbatim>\<open>paramsIndex\<close>, a \<^verbatim>\<open>map[int]int\<close>, is an association list with one entry per key.
\<close>

record scan =
  v_err :: "PatternCompileError option"
  v_prefix :: string
  v_paramsIndex :: "(nat \<times> nat) list"
  v_paramIndex :: nat
  v_groupBegin :: nat
  v_groupEnd :: nat
  v_equals :: nat
  v_parens :: nat
  v_regexpString :: string
  v_escape :: bool

definition initial :: scan where
  "initial = \<lparr>v_err = None, v_prefix = [], v_paramsIndex = [], v_paramIndex = 0,
              v_groupBegin = 0, v_groupEnd = 0, v_equals = 0, v_parens = 0,
              v_regexpString = [], v_escape = False\<rparr>"

text \<open>
  The validation of a variable name at the \<^verbatim>\<open>=\<close> of a group: the error it records,
  if any (fields not set by the composite literal are zero).
\<close>

definition nameError :: "(string \<rightharpoonup> nat) \<Rightarrow> string \<Rightarrow> nat \<Rightarrow> PatternCompileError option" where
  "nameError nameToField nm groupBegin =
     (if length nm = 0 then
        Some \<lparr>cause = MissingVariableName, currentGroup = [], pattern = [], name = [],
              at = groupBegin + 1\<rparr>
      else if \<not> allowedName nm then
        Some \<lparr>cause = InvalidVariableName, currentGroup = [], pattern = [], name = nm,
              at = groupBegin + 1\<rparr>
      else if nameToField nm = None then
        Some \<lparr>cause = UndefinedVariable, currentGroup = [], pattern = [], name = nm,
              at = groupBegin + 1\<rparr>
      else None)"

text \<open>
  One iteration of the loop \<^verbatim>\<open>for i, r := range pattern\<close>: \<open>Inl\<close> is a
  \<^verbatim>\<open>return\<close> from inside the loop (the error and the \<^verbatim>\<open>paramsIndex\<close> returned
  with it), \<open>Inr\<close> the variables after the iteration.  Reading a missing key of
  \<^verbatim>\<open>nameToField\<close> gives 0.
\<close>

definition step ::
  "(string \<rightharpoonup> nat) \<Rightarrow> string \<Rightarrow> nat \<Rightarrow> char \<Rightarrow> scan
     \<Rightarrow> (PatternCompileError \<times> (nat \<times> nat) list) + scan"
where
  "step nameToField pat i r st =
     (if v_escape st then Inr (st\<lparr>v_escape := False\<rparr>)
      else if v_parens st = 0 then
        (if r = CHR 0x5C then Inr (st\<lparr>v_escape := True\<rparr>)
         else if r = CHR ''('' then
           Inr (st\<lparr>v_parens := v_parens st + 1,
                    v_regexpString := v_regexpString st
                       @ QuoteMeta (removeEscapes (slice pat (v_groupEnd st) i)) @ ''('',
                    v_prefix := (if v_groupBegin st = 0
                                 then removeEscapes (slice pat (v_groupEnd st) i)
                                 else v_prefix st),
                    v_groupBegin := i,
                    v_equals := i\<rparr>)
         else if r = CHR '')'' then
           Inl (\<lparr>cause = UnmatchedRightParen, currentGroup = [], pattern = pat, name = [],
                 at = i\<rparr>, v_paramsIndex st)
         else Inr st)
      else
        (if r = CHR ''('' then Inr (st\<lparr>v_parens := v_parens st + 1\<rparr>)
         else if r = CHR '')'' then
           (if v_parens st - 1 = 0 then
              (case v_err st of
                 Some e \<Rightarrow>
                   Inl (e\<lparr>currentGroup := slice pat (v_groupBegin st) (i + 1), pattern := pat\<rparr>,
                        v_paramsIndex st)
               | None \<Rightarrow>
                   Inr (st\<lparr>v_parens := v_parens st - 1,
                            v_groupEnd := i + 1,
                            v_regexpString := v_regexpString st
                               @ slice pat (v_equals st + 1) (i + 1)\<rparr>))
            else Inr (st\<lparr>v_parens := v_parens st - 1\<rparr>))
         else if r = CHR ''='' \<and> v_equals st = v_groupBegin st then
           Inr (st\<lparr>v_err := (case nameError nameToField (slice pat (v_groupBegin st + 1) i)
                                     (v_groupBegin st) of
                                Some e \<Rightarrow> Some e
                              | None \<Rightarrow> v_err st),
                    v_paramsIndex :=
                       AList.update
                         (case nameToField (slice pat (v_groupBegin st + 1) i) of
                            None \<Rightarrow> 0 | Some f \<Rightarrow> f)
                         (v_paramIndex st) (v_paramsIndex st),
                    v_paramIndex := v_paramIndex st + 1,
                    v_equals := i\<rparr>)
         else Inr st))"

text \<open>
  The loop itself, over the bytes \<open>rs\<close> of the pattern that are still to be read, the
  first of them at offset \<open>i\<close>.
\<close>

fun loop ::
  "(string \<rightharpoonup> nat) \<Rightarrow> string \<Rightarrow> nat \<Rightarrow> string \<Rightarrow> scan
     \<Rightarrow> (PatternCompileError \<times> (nat \<times> nat) list) + scan"
where
  "loop nameToField pat i [] st = Inr st"
| "loop nameToField pat i (r # rs) st =
     (case step nameToField pat i r st of
        Inl e \<Rightarrow> Inl e
      | Inr st' \<Rightarrow> loop nameToField pat (i + 1) rs st')"

text \<open>
  \<^verbatim>\<open>compilePattern\<close>.  \<open>Inl\<close> is a return with a non-nil error (and the
  \<^verbatim>\<open>paramsIndex\<close> returned with it), \<open>Inr\<close> the return of the regular expression, the
  prefix and \<^verbatim>\<open>paramsIndex\<close>.
\<close>

definition compilePattern ::
  "Compile \<Rightarrow> string \<Rightarrow> (string \<rightharpoonup> nat)
     \<Rightarrow> (compileError \<times> (nat \<times> nat) list) + (Regexp \<times> string \<times> (nat \<times> nat) list)"
where
  "compilePattern rc pat nameToField =
     (case loop nameToField pat 0 pat initial of
        Inl (e, pidx) \<Rightarrow> Inl (PatternError e, pidx)
      | Inr st \<Rightarrow>
          if v_parens st \<noteq> 0 then
            Inl (PatternError \<lparr>cause = Unterminated, currentGroup = [], pattern = pat, name = [],
                               at = v_groupBegin st\<rparr>, v_paramsIndex st)
          else
            (case rc (''^'' @ (v_regexpString st
                                @ QuoteMeta (removeEscapes (drop (v_groupEnd st) pat))) @ ''$'') of
               None \<Rightarrow> Inl (RegexpError, v_paramsIndex st)
             | Some r \<Rightarrow>
                 Inr (r,
                      if v_groupBegin st = 0 then removeEscapes (drop (v_groupEnd st) pat)
                      else v_prefix st,
                      v_paramsIndex st)))"


section \<open>The parameter resolver\<close>

text \<open>
  The argument \<^verbatim>\<open>params interface{}\<close> as \<^verbatim>\<open>readParams\<close> inspects it: the nil
  interface, a nil pointer, a pointer to a value of some kind (with the fields of its
  type when that kind is \<^verbatim>\<open>Struct\<close>), or a value that is not a pointer.
\<close>

datatype paramsArg =
    NilInterface
  | NilPointer
  | PointerTo Kind "StructField list"
  | NotPointer Kind

datatype paramsError =
    NotStructPointer Kind
  | NotStruct Kind
  | InvalidParamName string
  | InvalidParamType Kind

text \<open>The loop over the fields, from field number \<open>i\<close> on.\<close>

fun readFields ::
  "StructField list \<Rightarrow> nat \<Rightarrow> (string \<rightharpoonup> nat) \<Rightarrow> (string \<rightharpoonup> nat) \<times> paramsError option"
where
  "readFields [] i nameToField = (nameToField, None)"
| "readFields (f # fs) i nameToField =
     (if length (Tag f) \<noteq> 0 then
        (if \<not> allowedName (Tag f) then (nameToField, Some (InvalidParamName (Tag f)))
         else if \<not> allowedType (FieldKind f) then (nameToField, Some (InvalidParamType (FieldKind f)))
         else readFields fs (i + 1) (nameToField(Tag f \<mapsto> i)))
      else if allowedType (FieldKind f) \<and> allowedName (Name f) then
        (if nameToField (Name f) = None
         then readFields fs (i + 1) (nameToField(Name f \<mapsto> i))
         else readFields fs (i + 1) nameToField)
      else readFields fs (i + 1) nameToField)"

definition readParams ::
  "paramsArg \<Rightarrow> (string \<rightharpoonup> nat) \<times> StructField list option \<times> paramsError option"
where
  "readParams params =
     (case params of
        NilInterface \<Rightarrow> (Map.empty, None, None)
      | NilPointer \<Rightarrow> (Map.empty, None, None)
      | NotPointer k \<Rightarrow> (Map.empty, None, Some (NotStructPointer k))
      | PointerTo k flds \<Rightarrow>
          if k \<noteq> reflect_Struct then (Map.empty, None, Some (NotStruct k))
          else (case readFields flds 0 Map.empty of
                  (nameToField, err) \<Rightarrow> (nameToField, Some flds, err)))"


section \<open>The route table\<close>

record 'h regexpHandler =
  handler :: 'h
  prefix :: string
  re :: Regexp
  paramsType :: "StructField list option"
  paramsIndex :: "(nat \<times> nat) list"

record 'h RegexpRouter =
  routes :: "'h regexpHandler list"

definition NewRouter :: "'h RegexpRouter" where
  "NewRouter = \<lparr>routes = []\<rparr>"

text \<open>
  The insertion at the end of \<^verbatim>\<open>Handle\<close>:
  \<^verbatim>\<open>i := sort.Search(len(r.routes), func(i int) bool { return r.routes[i].prefix >= rh.prefix })\<close>
  and then \<^verbatim>\<open>r.routes = append(r.routes[:i], append([]*regexpHandler{rh}, r.routes[i:]...)...)\<close>.
\<close>

definition insertRoute :: "'h regexpHandler \<Rightarrow> 'h regexpHandler list \<Rightarrow> 'h regexpHandler list" where
  "insertRoute rh rs =
     (let i = Search (length rs) (\<lambda>i. prefix (rs ! i) \<ge> prefix rh)
      in take i rs @ [rh] @ drop i rs)"

text \<open>
  \<^verbatim>\<open>Handle\<close>, in two parts.  \<open>newHandler\<close> is the part up to the insertion: it gives
  the value of \<^verbatim>\<open>rh\<close> with which the insertion is reached, or the panic on an error
  of \<^verbatim>\<open>readParams\<close> or of \<^verbatim>\<open>compilePattern\<close>.  \<open>Handle\<close> is the whole function:
  \<open>Inl\<close> is the panic, \<open>Inr\<close> the router after the registration.
\<close>

datatype registrationPanic = ParamsPanic paramsError | CompilePanic compileError

definition newHandler ::
  "Compile \<Rightarrow> string \<Rightarrow> 'h \<Rightarrow> paramsArg \<Rightarrow> registrationPanic + 'h regexpHandler"
where
  "newHandler rc pat h params =
     (case readParams params of
        (nameToField, ptype, Some e) \<Rightarrow> Inl (ParamsPanic e)
      | (nameToField, ptype, None) \<Rightarrow>
          (case compilePattern rc pat nameToField of
             Inl (e, pidx) \<Rightarrow> Inl (CompilePanic e)
           | Inr (rx, pre, pidx) \<Rightarrow>
               Inr \<lparr>handler = h, prefix = pre, re = rx, paramsType = ptype,
                    paramsIndex = pidx\<rparr>))"

definition Handle ::
  "Compile \<Rightarrow> string \<Rightarrow> 'h \<Rightarrow> paramsArg \<Rightarrow> 'h RegexpRouter \<Rightarrow> registrationPanic + 'h RegexpRouter"
where
  "Handle rc pat h params r =
     (case newHandler rc pat h params of
        Inl e \<Rightarrow> Inl e
      | Inr rh \<Rightarrow> Inr (r\<lparr>routes := insertRoute rh (routes r)\<rparr>))"

text \<open>
  The routers that registrations build: \<open>registered rc hist r\<close> holds when \<open>r\<close> is the
  router after calls of \<^verbatim>\<open>Handle\<close> on a new router, none of which panicked, and
  \<open>hist\<close> lists the routes in the order of their registration.
\<close>

inductive registered :: "Compile \<Rightarrow> 'h regexpHandler list \<Rightarrow> 'h RegexpRouter \<Rightarrow> bool"
  for rc :: Compile
where
  registered_new: "registered rc [] NewRouter"
| registered_Handle:
    "registered rc hist r \<Longrightarrow> newHandler rc pat h params = Inr rh \<Longrightarrow>
     Handle rc pat h params r = Inr r' \<Longrightarrow> registered rc (hist @ [rh]) r'"


section \<open>The dispatcher\<close>

text \<open>
  The extraction loop of \<^verbatim>\<open>ServeHTTP\<close>:
  \<^verbatim>\<open>for i := 2; i < len(is); i += 2 { if is[i] >= matchEnd { vals = append(vals, path[is[i]:is[i+1]]); matchEnd = is[i+1] } }\<close>.
  \<open>extractLoop\<close> runs over \<^verbatim>\<open>is[i:]\<close>; the list of offsets always has even length.
\<close>

fun extractLoop :: "string \<Rightarrow> int list \<Rightarrow> int \<Rightarrow> string list \<Rightarrow> string list" where
  "extractLoop path (b # e # rest) matchEnd vals =
     (if b \<ge> matchEnd
      then extractLoop path rest e (vals @ [slice path (nat b) (nat e)])
      else extractLoop path rest matchEnd vals)"
| "extractLoop path rest matchEnd vals = vals"

definition extractVals :: "string \<Rightarrow> int list \<Rightarrow> string list" where
  "extractVals path is = extractLoop path (drop 2 is) 0 []"

text \<open>
  The loop \<^verbatim>\<open>for f, v := range r.routes[h].paramsIndex\<close> that fills the parameter
  struct.  It ends in one of three ways: every value is set (\<open>Done\<close>), a value does not
  parse and the code jumps to \<^verbatim>\<open>keepLooking\<close> (\<open>Rejected\<close>), or the code panics.
  Go visits the entries of a map in an unspecified order; the model visits them in the
  order of the association list.
\<close>

datatype panic = IndexOutOfRange | FieldIndexOutOfRange | CannotSetType Kind

datatype outcome = Done "fieldValue list" | Rejected | Panicked panic

definition isIntKind :: "Kind \<Rightarrow> bool" where
  "isIntKind k = (k = reflect_Int \<or> k = reflect_Int8 \<or> k = reflect_Int16
                  \<or> k = reflect_Int32 \<or> k = reflect_Int64)"

definition isUintKind :: "Kind \<Rightarrow> bool" where
  "isUintKind k = (k = reflect_Uint \<or> k = reflect_Uint8 \<or> k = reflect_Uint16
                   \<or> k = reflect_Uint32 \<or> k = reflect_Uint64)"

definition isFloatKind :: "Kind \<Rightarrow> bool" where
  "isFloatKind k = (k = reflect_Float32 \<or> k = reflect_Float64)"

fun setParams ::
  "ParseFloat \<Rightarrow> StructField list \<Rightarrow> string list \<Rightarrow> (nat \<times> nat) list \<Rightarrow> fieldValue list \<Rightarrow> outcome"
where
  "setParams pf flds vals [] params = Done params"
| "setParams pf flds vals ((f, v) # rest) params =
     (if f \<ge> length flds then Panicked FieldIndexOutOfRange
      else if isIntKind (FieldKind (flds ! f)) then
        (if v \<ge> length vals then Panicked IndexOutOfRange
         else (case ParseInt (vals ! v) of
                 None \<Rightarrow> Rejected
               | Some val \<Rightarrow>
                   setParams pf flds vals rest (params[f := SetInt (FieldKind (flds ! f)) val])))
      else if isUintKind (FieldKind (flds ! f)) then
        (if v \<ge> length vals then Panicked IndexOutOfRange
         else (case ParseUint (vals ! v) of
                 None \<Rightarrow> Rejected
               | Some val \<Rightarrow>
                   setParams pf flds vals rest (params[f := SetUint (FieldKind (flds ! f)) val])))
      else if isFloatKind (FieldKind (flds ! f)) then
        (if v \<ge> length vals then Panicked IndexOutOfRange
         else (case pf (vals ! v) of
                 None \<Rightarrow> Rejected
               | Some val \<Rightarrow>
                   setParams pf flds vals rest (params[f := SetFloat (FieldKind (flds ! f)) val])))
      else if FieldKind (flds ! f) = reflect_String then
        (if v \<ge> length vals then Panicked IndexOutOfRange
         else setParams pf flds vals rest (params[f := StringVal (vals ! v)]))
      else Panicked (CannotSetType (FieldKind (flds ! f))))"

text \<open>
  What a request ends in: \<^verbatim>\<open>http.NotFound\<close>, a call of a route's handler with its
  parameter struct (\<open>None\<close> for \<^verbatim>\<open>nil\<close>), or a panic.
\<close>

datatype 'h response = NotFound | Serve 'h "fieldValue list option" | Panic panic

text \<open>
  The loop \<^verbatim>\<open>for ; h >= 0 && strings.HasPrefix(path, r.routes[h].prefix); h -= 1\<close>,
  which breaks at the first route whose regular expression matches.  It returns the final
  \<open>h\<close> and \<open>is\<close>.
\<close>

function findMatch :: "'h regexpHandler list \<Rightarrow> string \<Rightarrow> int \<Rightarrow> int \<times> int list" where
  "findMatch rs path h =
     (if h \<ge> 0 \<and> HasPrefix path (prefix (rs ! nat h))
      then (if length (re (rs ! nat h) path) \<noteq> 0
            then (h, re (rs ! nat h) path)
            else findMatch rs path (h - 1))
      else (h, []))"
  by pat_completeness auto
termination
  by (relation "measure (\<lambda>(rs, path, h). nat (h + 1))") auto

declare findMatch.simps [simp del]

lemma findMatch_bounds:
  "findMatch rs path h = (h', is) \<Longrightarrow> h' \<le> h \<and> (is \<noteq> [] \<longrightarrow> 0 \<le> h')"
proof (induction rs path h rule: findMatch.induct)
  case (1 rs path h)
  then show ?case
    by (subst (asm) (2) findMatch.simps) (auto split: if_splits)
qed

text \<open>
  The body of \<^verbatim>\<open>ServeHTTP\<close> from the label \<^verbatim>\<open>keepLooking\<close> on; the argument is the
  value of \<open>h\<close> on arrival at the label.
\<close>

function keepLooking :: "ParseFloat \<Rightarrow> 'h regexpHandler list \<Rightarrow> string \<Rightarrow> int \<Rightarrow> 'h response" where
  "keepLooking pf rs path h0 =
     (case findMatch rs path (h0 - 1) of
        (h, is) \<Rightarrow>
          if length is = 0 then NotFound
          else (case paramsType (rs ! nat h) of
                  None \<Rightarrow> Serve (handler (rs ! nat h)) None
                | Some flds \<Rightarrow>
                    (case setParams pf flds (extractVals path is) (paramsIndex (rs ! nat h))
                            (replicate (length flds) Zero) of
                       Rejected \<Rightarrow> keepLooking pf rs path h
                     | Panicked p \<Rightarrow> Panic p
                     | Done params \<Rightarrow> Serve (handler (rs ! nat h)) (Some params))))"
  by pat_completeness auto
termination
proof (relation "measure (\<lambda>(pf, rs, path, h). nat (h + 1))")
  show "wf (measure (\<lambda>(pf, rs, path, h). nat (h + 1)))" by simp
next
  fix pf :: ParseFloat and rs :: "'h regexpHandler list" and path h0 x h "is"
  assume "(h, is) = findMatch rs path (h0 - 1)" and "length is \<noteq> 0"
  then have "h \<le> h0 - 1 \<and> 0 \<le> h"
    using findMatch_bounds [of rs path "h0 - 1" h "is"] by auto
  then show "((pf, rs, path, h), (pf, rs, path, h0)) \<in> measure (\<lambda>(pf, rs, path, h). nat (h + 1))"
    by simp
qed

declare keepLooking.simps [simp del]

definition ServeHTTP :: "ParseFloat \<Rightarrow> 'h RegexpRouter \<Rightarrow> string \<Rightarrow> 'h response" where
  "ServeHTTP pf r path =
     keepLooking pf (routes r) path
       (int (Search (length (routes r)) (\<lambda>i. prefix (routes r ! i) > path)))"


section \<open>A regular-expression engine for a fragment of the syntax\<close>

text \<open>
  Package \<^verbatim>\<open>regexp\<close> is not part of rhttp, and the general results below hold for
  every \<^verbatim>\<open>regexp.Compile\<close>.  Results about particular patterns and paths need the
  offsets that \<^verbatim>\<open>FindStringSubmatchIndex\<close> returns for them; \<open>fragmentCompile\<close> computes
  these for the fragment of the syntax made of literal characters, escaped punctuation,
  \<^verbatim>\<open>.\<close>, \<^verbatim>\<open>^\<close>, \<^verbatim>\<open>$\<close>, \<^verbatim>\<open>|\<close>, the greedy operators \<^verbatim>\<open>*\<close>, \<^verbatim>\<open>+\<close>, \<^verbatim>\<open>?\<close>,
  capturing groups \<^verbatim>\<open>(...)\<close> and non-capturing groups \<^verbatim>\<open>(?:...)\<close>, on ASCII input.
  Any other expression is reported as a compile error.  Groups are numbered by their
  opening parenthesis, and the match is the leftmost one that a backtracking search
  prefers, as package \<^verbatim>\<open>regexp\<close> specifies.
\<close>

datatype rx = Eps | Lit char | AnyChar | Bol | Eol | Seq rx rx | Or rx rx | Star rx | Quest rx | Cap nat rx

text \<open>Tokens, and the lexer.\<close>

datatype token = TChar char | TDot | TOpen | TOpenNC | TClose | TBar | TStar | TPlus | TQuest | TBol | TEol

fun lexRx :: "string \<Rightarrow> token list option" where
  "lexRx [] = Some []"
| "lexRx (c # cs) =
     (if c = CHR 0x5C then
        (case cs of
           [] \<Rightarrow> None
         | d # ds \<Rightarrow> if special d then map_option ((#) (TChar d)) (lexRx ds) else None)
      else if c = CHR ''('' then
        (if take 1 cs = ''?''
         then (if take 2 cs = ''?:'' then map_option ((#) TOpenNC) (lexRx (drop 2 cs)) else None)
         else map_option ((#) TOpen) (lexRx cs))
      else if c = CHR '')'' then map_option ((#) TClose) (lexRx cs)
      else if c = CHR ''|'' then map_option ((#) TBar) (lexRx cs)
      else if c = CHR ''*'' then map_option ((#) TStar) (lexRx cs)
      else if c = CHR ''+'' then map_option ((#) TPlus) (lexRx cs)
      else if c = CHR ''?'' then map_option ((#) TQuest) (lexRx cs)
      else if c = CHR ''.'' then map_option ((#) TDot) (lexRx cs)
      else if c = CHR ''^'' then map_option ((#) TBol) (lexRx cs)
      else if c = CHR ''$'' then map_option ((#) TEol) (lexRx cs)
      else if special c then None
      else map_option ((#) (TChar c)) (lexRx cs))"

text \<open>
  The parser keeps a stack of open groups; a frame holds the number of the capturing
  group it belongs to (none for a non-capturing group and for the whole expression), the
  alternatives that are complete and the items of the current alternative, both in
  reverse order.
\<close>

fun mkSeq :: "rx list \<Rightarrow> rx" where
  "mkSeq [] = Eps"
| "mkSeq [x] = x"
| "mkSeq (x # xs) = Seq x (mkSeq xs)"

fun mkOr :: "rx list \<Rightarrow> rx" where
  "mkOr [] = Eps"
| "mkOr [x] = x"
| "mkOr (x # xs) = Or x (mkOr xs)"

type_synonym frame = "nat option \<times> rx list \<times> rx list"

definition closeFrame :: "frame \<Rightarrow> rx" where
  "closeFrame f = (case f of (k, alts, cur) \<Rightarrow>
      (case k of None \<Rightarrow> mkOr (rev (mkSeq (rev cur) # alts))
               | Some n \<Rightarrow> Cap n (mkOr (rev (mkSeq (rev cur) # alts)))))"

fun isRepeat :: "rx \<Rightarrow> bool" where
  "isRepeat (Star r) = True"
| "isRepeat (Quest r) = True"
| "isRepeat (Seq r (Star r')) = (r = r')"
| "isRepeat r = False"

fun parseTokens :: "token list \<Rightarrow> frame \<Rightarrow> frame list \<Rightarrow> nat \<Rightarrow> (rx \<times> nat) option" where
  "parseTokens [] f [] n = Some (closeFrame f, n)"
| "parseTokens [] f (g # st) n = None"
| "parseTokens (TOpen # ts) f st n = parseTokens ts (Some n, [], []) (f # st) (n + 1)"
| "parseTokens (TOpenNC # ts) f st n = parseTokens ts (None, [], []) (f # st) n"
| "parseTokens (TClose # ts) f [] n = None"
| "parseTokens (TClose # ts) f ((k, alts, cur) # st) n =
     parseTokens ts (k, alts, closeFrame f # cur) st n"
| "parseTokens (TBar # ts) (k, alts, cur) st n = parseTokens ts (k, mkSeq (rev cur) # alts, []) st n"
| "parseTokens (TStar # ts) (k, alts, []) st n = None"
| "parseTokens (TStar # ts) (k, alts, x # cur) st n =
     (if isRepeat x then None else parseTokens ts (k, alts, Star x # cur) st n)"
| "parseTokens (TPlus # ts) (k, alts, []) st n = None"
| "parseTokens (TPlus # ts) (k, alts, x # cur) st n =
     (if isRepeat x then None else parseTokens ts (k, alts, Seq x (Star x) # cur) st n)"
| "parseTokens (TQuest # ts) (k, alts, []) st n = None"
| "parseTokens (TQuest # ts) (k, alts, x # cur) st n =
     (if isRepeat x then None else parseTokens ts (k, alts, Quest x # cur) st n)"
| "parseTokens (TChar c # ts) (k, alts, cur) st n = parseTokens ts (k, alts, Lit c # cur) st n"
| "parseTokens (TDot # ts) (k, alts, cur) st n = parseTokens ts (k, alts, AnyChar # cur) st n"
| "parseTokens (TBol # ts) (k, alts, cur) st n = parseTokens ts (k, alts, Bol # cur) st n"
| "parseTokens (TEol # ts) (k, alts, cur) st n = parseTokens ts (k, alts, Eol # cur) st n"

text \<open>
  \<open>matchRx r s (i, caps)\<close> lists, in the order of preference, the ways in which \<open>r\<close>
  matches \<open>s\<close> from offset \<open>i\<close> on: the offset after the match and the capture offsets.
  An iteration of \<^verbatim>\<open>*\<close> that matches the empty string is not repeated.
\<close>

function matchRx :: "rx \<Rightarrow> string \<Rightarrow> nat \<times> int list \<Rightarrow> (nat \<times> int list) list" where
  "matchRx Eps s (i, caps) = [(i, caps)]"
| "matchRx (Lit c) s (i, caps) = (if i < length s \<and> s ! i = c then [(i + 1, caps)] else [])"
| "matchRx AnyChar s (i, caps) = (if i < length s \<and> s ! i \<noteq> CHR 0x0A then [(i + 1, caps)] else [])"
| "matchRx Bol s (i, caps) = (if i = 0 then [(i, caps)] else [])"
| "matchRx Eol s (i, caps) = (if i = length s then [(i, caps)] else [])"
| "matchRx (Seq a b) s (i, caps) = concat (map (\<lambda>st. matchRx b s st) (matchRx a s (i, caps)))"
| "matchRx (Or a b) s (i, caps) = matchRx a s (i, caps) @ matchRx b s (i, caps)"
| "matchRx (Quest a) s (i, caps) = matchRx a s (i, caps) @ [(i, caps)]"
| "matchRx (Star a) s (i, caps) =
     concat (map (\<lambda>st. if i < fst st \<and> fst st \<le> length s then matchRx (Star a) s st else [])
                 (matchRx a s (i, caps))) @ [(i, caps)]"
| "matchRx (Cap n a) s (i, caps) =
     map (\<lambda>st. (fst st, (snd st)[2 * n := int i, 2 * n + 1 := int (fst st)])) (matchRx a s (i, caps))"
  by pat_completeness auto
termination
  by (relation "inv_image (less_than <*lex*> less_than) (\<lambda>(r, s, st). (size r, length s - fst st))") auto

declare matchRx.simps [simp del]

text \<open>\<^verbatim>\<open>FindStringSubmatchIndex\<close>: the first match from the leftmost possible offset.\<close>

fun firstMatch :: "rx \<Rightarrow> nat \<Rightarrow> string \<Rightarrow> nat list \<Rightarrow> int list" where
  "firstMatch r n s [] = []"
| "firstMatch r n s (b # bs) =
     (case matchRx r s (b, replicate (2 * n) (- 1)) of
        [] \<Rightarrow> firstMatch r n s bs
      | st # sts \<Rightarrow> int b # int (fst st) # snd st)"

definition fragmentCompile :: Compile where
  "fragmentCompile expr =
     (case lexRx expr of
        None \<Rightarrow> None
      | Some ts \<Rightarrow>
          (case parseTokens ts (None, [], []) [] 0 of
             None \<Rightarrow> None
           | Some (r, n) \<Rightarrow> Some (\<lambda>s. firstMatch r n s [0..<length s + 1])))"


text \<open>
  The parameter structs \<^verbatim>\<open>P1\<close> and \<^verbatim>\<open>P2\<close> of \<^verbatim>\<open>ExampleRegexpRouterTyped\<close>, as
  reflection shows their fields.
\<close>

abbreviation (input) fieldsP1 :: "StructField list" where
  "fieldsP1 \<equiv> [\<lparr>Name = ''V1'', FieldKind = reflect_Int, Tag = []\<rparr>,
               \<lparr>Name = ''V2'', FieldKind = reflect_Int, Tag = []\<rparr>]"

abbreviation (input) fieldsP2 :: "StructField list" where
  "fieldsP2 \<equiv> [\<lparr>Name = ''V1'', FieldKind = reflect_Int, Tag = []\<rparr>,
               \<lparr>Name = ''V2'', FieldKind = reflect_String, Tag = []\<rparr>]"


section \<open>The binary search and the order of the route table\<close>

lemma Search_loop_spec:
  "i \<le> j \<Longrightarrow> j \<le> n \<Longrightarrow> (\<forall>a b. a \<le> b \<and> b < n \<and> f a \<longrightarrow> f b) \<Longrightarrow>
   (\<forall>k<i. \<not> f k) \<Longrightarrow> (\<forall>k. j \<le> k \<and> k < n \<longrightarrow> f k) \<Longrightarrow>
   Search_loop f i j \<le> n \<and> (\<forall>k<Search_loop f i j. \<not> f k)
     \<and> (\<forall>k. Search_loop f i j \<le> k \<and> k < n \<longrightarrow> f k)"
proof (induction f i j rule: Search_loop.induct)
  case (1 f i j)
  let ?h = "(i + j) div 2"
  show ?case
  proof (cases "i < j")
    case False
    with 1(3-) have "i = j" by simp
    with 1(3-) show ?thesis by (simp add: Search_loop.simps)
  next
    case True
    then have h: "i \<le> ?h" "?h < j" by auto
    show ?thesis
    proof (cases "f ?h")
      case fh: True
      have a: "\<forall>k. ?h \<le> k \<and> k < n \<longrightarrow> f k"
        using fh 1(5) by blast
      from 1(2) [OF True _ h(1) _ 1(5) 1(6) a] fh h 1(4)
      have "Search_loop f i ?h \<le> n \<and> (\<forall>k<Search_loop f i ?h. \<not> f k)
             \<and> (\<forall>k. Search_loop f i ?h \<le> k \<and> k < n \<longrightarrow> f k)"
        by simp
      with True fh show ?thesis by (subst (1 2 3) Search_loop.simps) simp
    next
      case nfh: False
      have b: "\<forall>k<?h + 1. \<not> f k"
      proof (intro allI impI)
        fix k assume "k < ?h + 1"
        then have "k \<le> ?h" by simp
        with nfh 1(5) h 1(4) show "\<not> f k"
          by (metis le_trans less_le_trans not_le order.strict_implies_order)
      qed
      from 1(1) [OF True nfh _ 1(4) 1(5) b 1(7)] h
      have "Search_loop f (?h + 1) j \<le> n \<and> (\<forall>k<Search_loop f (?h + 1) j. \<not> f k)
             \<and> (\<forall>k. Search_loop f (?h + 1) j \<le> k \<and> k < n \<longrightarrow> f k)"
        by simp
      with True nfh show ?thesis by (subst (1 2 3) Search_loop.simps) simp
    qed
  qed
qed

lemma Search_spec:
  assumes "\<forall>a b. a \<le> b \<and> b < n \<and> f a \<longrightarrow> f b"
  shows "Search n f \<le> n" and "\<forall>k<Search n f. \<not> f k" and "\<forall>k. Search n f \<le> k \<and> k < n \<longrightarrow> f k"
proof -
  have "Search_loop f 0 n \<le> n \<and> (\<forall>k<Search_loop f 0 n. \<not> f k)
     \<and> (\<forall>k. Search_loop f 0 n \<le> k \<and> k < n \<longrightarrow> f k)"
  proof (rule Search_loop_spec)
    show "\<forall>a b. a \<le> b \<and> b < n \<and> f a \<longrightarrow> f b" by (rule assms)
    show "\<forall>k. n \<le> k \<and> k < n \<longrightarrow> f k"
    proof (intro allI impI)
      fix k assume "n \<le> k \<and> k < n"
      then have False by linarith
      then show "f k" ..
    qed
  qed simp_all
  then have r: "Search n f \<le> n \<and> (\<forall>k<Search n f. \<not> f k)
     \<and> (\<forall>k. Search n f \<le> k \<and> k < n \<longrightarrow> f k)"
    unfolding Search_def .
  from r show "Search n f \<le> n" by (rule conjunct1)
  from r show "\<forall>k<Search n f. \<not> f k" by (rule conjunct1 [OF conjunct2])
  from r show "\<forall>k. Search n f \<le> k \<and> k < n \<longrightarrow> f k" by (rule conjunct2 [OF conjunct2])
qed

lemma sorted_prefix_nth:
  assumes "sorted (map prefix rs)" and "a \<le> b" and "b < length rs"
  shows "prefix (rs ! a) \<le> prefix (rs ! b)"
proof -
  have len: "b < length (map prefix rs)" using assms(3) by (simp only: length_map)
  have "map prefix rs ! a \<le> map prefix rs ! b"
    by (rule sorted_nth_mono [OF assms(1) assms(2) len])
  moreover have "a < length rs" using assms(2,3) by (rule le_less_trans)
  ultimately show ?thesis using assms(3) by (simp only: nth_map)
qed

lemma sorted_prefix_mono_ge:
  assumes "sorted (map prefix rs)"
  shows "\<forall>a b. a \<le> b \<and> b < length rs \<and> p \<le> prefix (rs ! a) \<longrightarrow> p \<le> prefix (rs ! b)"
proof (intro allI impI, elim conjE)
  fix a b assume "a \<le> b" "b < length rs" and p: "p \<le> prefix (rs ! a)"
  then have "prefix (rs ! a) \<le> prefix (rs ! b)" by (intro sorted_prefix_nth [OF assms])
  with p show "p \<le> prefix (rs ! b)" by (rule order_trans)
qed

lemma sorted_prefix_mono_gt:
  assumes "sorted (map prefix rs)"
  shows "\<forall>a b. a \<le> b \<and> b < length rs \<and> p < prefix (rs ! a) \<longrightarrow> p < prefix (rs ! b)"
proof (intro allI impI, elim conjE)
  fix a b assume "a \<le> b" "b < length rs" and p: "p < prefix (rs ! a)"
  then have "prefix (rs ! a) \<le> prefix (rs ! b)" by (intro sorted_prefix_nth [OF assms])
  with p show "p < prefix (rs ! b)" by (rule less_le_trans)
qed

lemma sorted_insert_at:
  fixes f :: "'a \<Rightarrow> 'b::linorder"
  assumes s: "sorted (map f xs)"
    and lo: "\<forall>x\<in>set (take i xs). f x \<le> f y"
    and hi: "\<forall>x\<in>set (drop i xs). f y \<le> f x"
  shows "sorted (map f (take i xs @ y # drop i xs))"
proof -
  from s have "sorted (take i (map f xs))" by (rule sorted_wrt_take)
  then have t: "sorted (map f (take i xs))" by (simp only: take_map)
  from s have "sorted (drop i (map f xs))" by (rule sorted_wrt_drop)
  then have d: "sorted (map f (drop i xs))" by (simp only: drop_map)
  have cross: "\<forall>x \<in> set (take i xs). \<forall>z \<in> set (drop i xs). f x \<le> f z"
  proof (intro ballI)
    fix x z assume x: "x \<in> set (take i xs)" and z: "z \<in> set (drop i xs)"
    from lo x have "f x \<le> f y" by (rule bspec)
    moreover from hi z have "f y \<le> f z" by (rule bspec)
    ultimately show "f x \<le> f z" by (rule order_trans)
  qed
  show ?thesis
    using t d lo hi cross by (simp add: sorted_append)
qed

lemma filter_insert_at:
  assumes "\<forall>x\<in>set (take i xs). \<not> P x"
  shows "filter P (take i xs @ y # drop i xs) = (if P y then y # filter P xs else filter P xs)"
proof -
  have "filter P (take i xs @ drop i xs) = filter P (take i xs) @ filter P (drop i xs)"
    by (rule filter_append)
  then have split: "filter P xs = filter P (take i xs) @ filter P (drop i xs)"
    by (simp only: append_take_drop_id)
  from assms have e: "filter P (take i xs) = []"
    by (simp only: filter_empty_conv)
  show ?thesis by (simp add: split e)
qed


text \<open>The index at which \<open>insertRoute\<close> puts a route.\<close>

lemma insertRoute_below:
  assumes "sorted (map prefix rs)"
    and "i = Search (length rs) (\<lambda>i. prefix rh \<le> prefix (rs ! i))"
    and "x \<in> set (take i rs)"
  shows "prefix x < prefix rh"
proof -
  note sp = Search_spec [OF sorted_prefix_mono_ge [OF assms(1), of "prefix rh"], folded assms(2)]
  from assms(3) obtain k where k: "k < length (take i rs)" "take i rs ! k = x"
    by (meson in_set_conv_nth)
  from k(1) have lt: "k < i" "k < length rs" by simp_all
  with k(2) have x: "x = rs ! k" by simp
  from sp(2) lt(1) have "\<not> prefix rh \<le> prefix (rs ! k)" by blast
  with x show ?thesis by (simp only: not_le)
qed

lemma insertRoute_above:
  assumes "sorted (map prefix rs)"
    and "i = Search (length rs) (\<lambda>i. prefix rh \<le> prefix (rs ! i))"
    and "x \<in> set (drop i rs)"
  shows "prefix rh \<le> prefix x"
proof -
  note sp = Search_spec [OF sorted_prefix_mono_ge [OF assms(1), of "prefix rh"], folded assms(2)]
  from assms(3) obtain k where k: "k < length (drop i rs)" "drop i rs ! k = x"
    by (meson in_set_conv_nth)
  from k(1) have lt: "i + k < length rs" by simp
  with k(2) sp(1) have x: "x = rs ! (i + k)" by simp
  have "i \<le> i + k" by (rule le_add1)
  with sp(3) lt have "prefix rh \<le> prefix (rs ! (i + k))" by blast
  with x show ?thesis by (simp only:)
qed

lemma insertRoute_eq:
  assumes "i = Search (length rs) (\<lambda>i. prefix rh \<le> prefix (rs ! i))"
  shows "insertRoute rh rs = take i rs @ rh # drop i rs"
  unfolding insertRoute_def Let_def assms by (simp only: append_Cons append_Nil)

lemma insertRoute_sorted:
  assumes "sorted (map prefix rs)"
  shows "sorted (map prefix (insertRoute rh rs))"
proof -
  define i where i: "i = Search (length rs) (\<lambda>i. prefix rh \<le> prefix (rs ! i))"
  have lo: "\<forall>x \<in> set (take i rs). prefix x \<le> prefix rh"
  proof
    fix x assume "x \<in> set (take i rs)"
    with assms i have "prefix x < prefix rh" by (rule insertRoute_below)
    then show "prefix x \<le> prefix rh" by (rule less_imp_le)
  qed
  have hi: "\<forall>x \<in> set (drop i rs). prefix rh \<le> prefix x"
  proof
    fix x assume "x \<in> set (drop i rs)"
    with assms i show "prefix rh \<le> prefix x" by (rule insertRoute_above)
  qed
  have "sorted (map prefix (take i rs @ rh # drop i rs))"
    using assms lo hi by (rule sorted_insert_at)
  then show ?thesis by (simp only: insertRoute_eq [OF i])
qed

lemma insertRoute_filter:
  assumes "sorted (map prefix rs)"
  shows "filter (\<lambda>x. prefix x = p) (insertRoute rh rs) =
         (if prefix rh = p then rh # filter (\<lambda>x. prefix x = p) rs
          else filter (\<lambda>x. prefix x = p) rs)"
proof (cases "prefix rh = p")
  case True
  define i where i: "i = Search (length rs) (\<lambda>i. prefix rh \<le> prefix (rs ! i))"
  have "\<forall>x \<in> set (take i rs). \<not> prefix x = p"
  proof
    fix x assume "x \<in> set (take i rs)"
    with assms i have "prefix x < prefix rh" by (rule insertRoute_below)
    then have "prefix x \<noteq> prefix rh" by (rule less_imp_neq)
    with True show "\<not> prefix x = p" by simp
  qed
  then have "filter (\<lambda>x. prefix x = p) (take i rs @ rh # drop i rs) =
     (if prefix rh = p then rh # filter (\<lambda>x. prefix x = p) rs else filter (\<lambda>x. prefix x = p) rs)"
    by (rule filter_insert_at)
  then show ?thesis by (simp only: insertRoute_eq [OF i])
next
  case False
  define i where i: "i = Search (length rs) (\<lambda>i. prefix rh \<le> prefix (rs ! i))"
  have "filter (\<lambda>x. prefix x = p) (take i rs @ rh # drop i rs) =
        filter (\<lambda>x. prefix x = p) (take i rs) @ filter (\<lambda>x. prefix x = p) (drop i rs)"
    using False by simp
  also have "\<dots> = filter (\<lambda>x. prefix x = p) (take i rs @ drop i rs)"
    by (rule filter_append [symmetric])
  also have "\<dots> = filter (\<lambda>x. prefix x = p) rs"
    by (simp only: append_take_drop_id)
  finally have "filter (\<lambda>x. prefix x = p) (insertRoute rh rs) = filter (\<lambda>x. prefix x = p) rs"
    by (simp only: insertRoute_eq [OF i])
  with False show ?thesis by (simp only: if_False)
qed

lemma Handle_routes:
  assumes "Handle rc pat h params r = Inr r'" and "newHandler rc pat h params = Inr rh"
  shows "routes r' = insertRoute rh (routes r)"
  using assms by (auto simp: Handle_def)

lemma registered_sorted: "registered rc hist r \<Longrightarrow> sorted (map prefix (routes r))"
proof (induction rule: registered.induct)
  case registered_new
  show ?case by (simp add: NewRouter_def)
next
  case (registered_Handle hist r pat h params rh r')
  then show ?case by (simp add: Handle_routes insertRoute_sorted)
qed

text \<open>
  Claim C4.  After every sequence of registrations the route table is in ascending
  lexicographic order of prefix, and for every prefix the routes with that prefix stand
  in the table in the reverse of the order of their registration: the one registered
  last at the lowest index of the run, the one registered first at the highest.
\<close>

theorem route_table_order:
  assumes "registered rc hist r"
  shows "sorted (map prefix (routes r)) \<and>
         (\<forall>p. filter (\<lambda>x. prefix x = p) (routes r) = rev (filter (\<lambda>x. prefix x = p) hist))"
  using assms
proof (induction rule: registered.induct)
  case registered_new
  show ?case by (simp add: NewRouter_def)
next
  case (registered_Handle hist r pat h params rh r')
  then have s: "sorted (map prefix (routes r))" by simp
  have r': "routes r' = insertRoute rh (routes r)"
    using registered_Handle by (simp add: Handle_routes)
  show ?case
    using registered_Handle.IH by (simp add: r' insertRoute_sorted [OF s] insertRoute_filter [OF s])
qed


section \<open>Dispatch of particular routes\<close>

lemma loop_a2: "loop Map.empty ''/a(/?)'' 0 ''/a(/?)'' initial =
   Inr \<lparr>v_err = None, v_prefix = ''/a'', v_paramsIndex = [], v_paramIndex = 0,
              v_groupBegin = 2, v_groupEnd = 6, v_equals = 2, v_parens = 0,
              v_regexpString = ''/a(/?)'', v_escape = False\<rparr>"
  by code_simp

lemma compile_a2: "compilePattern rc ''/a(/?)'' Map.empty =
    (case rc ''^/a(/?)$'' of None \<Rightarrow> Inl (RegexpError, []) | Some r \<Rightarrow> Inr (r, ''/a'', []))"
  unfolding compilePattern_def loop_a2 by (simp add: special_def split: option.split)

lemma loop_a: "loop Map.empty ''/a'' 0 ''/a'' initial = Inr initial"
  by code_simp

lemma compile_a: "compilePattern rc ''/a'' Map.empty =
    (case rc ''^/a$'' of None \<Rightarrow> Inl (RegexpError, []) | Some r \<Rightarrow> Inr (r, ''/a'', []))"
  unfolding compilePattern_def loop_a by (simp add: initial_def special_def split: option.split)


lemma handle_a:
  assumes "rc ''^/a$'' = Some re1"
  shows "Handle rc ''/a'' h1 NilInterface NewRouter =
     Inr \<lparr>routes = [\<lparr>handler = h1, prefix = ''/a'', re = re1, paramsType = None, paramsIndex = []\<rparr>]\<rparr>"
  using assms
  by (simp add: Handle_def newHandler_def readParams_def compile_a NewRouter_def
       insertRoute_def Search_def Search_loop.simps)

lemma handle_a2:
  assumes "rc ''^/a(/?)$'' = Some re2"
  shows "Handle rc ''/a(/?)'' h2 NilInterface
           \<lparr>routes = [\<lparr>handler = h1, prefix = ''/a'', re = re1, paramsType = None, paramsIndex = []\<rparr>]\<rparr> =
     Inr \<lparr>routes = [\<lparr>handler = h2, prefix = ''/a'', re = re2, paramsType = None, paramsIndex = []\<rparr>,
                    \<lparr>handler = h1, prefix = ''/a'', re = re1, paramsType = None, paramsIndex = []\<rparr>]\<rparr>"
  using assms
  by (simp add: Handle_def newHandler_def readParams_def compile_a2
       insertRoute_def Search_def Search_loop.simps)

lemma serve_a:
  assumes "re1 ''/a'' \<noteq> []"
  shows "ServeHTTP pf \<lparr>routes = [\<lparr>handler = h2, prefix = ''/a'', re = re2, paramsType = None, paramsIndex = []\<rparr>,
                    \<lparr>handler = h1, prefix = ''/a'', re = re1, paramsType = None, paramsIndex = []\<rparr>]\<rparr> ''/a'' = Serve h1 None"
  using assms
  apply (simp add: ServeHTTP_def Search_def Search_loop.simps)
  apply (subst keepLooking.simps)
  apply (simp add: findMatch.simps HasPrefix_def)
  done

lemma serve_a2:
  assumes "re1 ''/a/'' = []" "re2 ''/a/'' \<noteq> []"
  shows "ServeHTTP pf \<lparr>routes = [\<lparr>handler = h2, prefix = ''/a'', re = re2, paramsType = None, paramsIndex = []\<rparr>,
                    \<lparr>handler = h1, prefix = ''/a'', re = re1, paramsType = None, paramsIndex = []\<rparr>]\<rparr> ''/a/'' = Serve h2 None"
  using assms
  apply (simp add: ServeHTTP_def Search_def Search_loop.simps)
  apply (subst keepLooking.simps)
  apply (simp add: findMatch.simps HasPrefix_def)
  done

text \<open>
  Claim C2.  With \<^verbatim>\<open>/a\<close> registered before \<^verbatim>\<open>/a(/?)\<close> (neither with a parameter
  struct), and a regular-expression engine for which \<^verbatim>\<open>^/a$\<close> matches \<^verbatim>\<open>/a\<close> but not
  \<^verbatim>\<open>/a/\<close> and \<^verbatim>\<open>^/a(/?)$\<close> matches \<^verbatim>\<open>/a/\<close>, both registrations succeed, the path
  \<^verbatim>\<open>/a\<close> goes to the handler of the first route and \<^verbatim>\<open>/a/\<close> to the handler of the
  second.
\<close>

theorem precedence_same_prefix:
  assumes "rc ''^/a$'' = Some re1" and "rc ''^/a(/?)$'' = Some re2"
    and "re1 ''/a'' \<noteq> []" and "re1 ''/a/'' = []" and "re2 ''/a/'' \<noteq> []"
  shows "\<exists>r1 r2. Handle rc ''/a'' h1 NilInterface NewRouter = Inr r1
           \<and> Handle rc ''/a(/?)'' h2 NilInterface r1 = Inr r2
           \<and> ServeHTTP pf r2 ''/a'' = Serve h1 None
           \<and> ServeHTTP pf r2 ''/a/'' = Serve h2 None"
proof -
  let ?R1 = "\<lparr>handler = h1, prefix = ''/a'', re = re1, paramsType = None, paramsIndex = []\<rparr>"
  let ?R2 = "\<lparr>handler = h2, prefix = ''/a'', re = re2, paramsType = None, paramsIndex = []\<rparr>"
  have 1: "Handle rc ''/a'' h1 NilInterface NewRouter = Inr \<lparr>routes = [?R1]\<rparr>"
    using assms(1) by (rule handle_a)
  have 2: "Handle rc ''/a(/?)'' h2 NilInterface \<lparr>routes = [?R1]\<rparr> = Inr \<lparr>routes = [?R2, ?R1]\<rparr>"
    using assms(2) by (rule handle_a2)
  have 3: "ServeHTTP pf \<lparr>routes = [?R2, ?R1]\<rparr> ''/a'' = Serve h1 None"
    using assms(3) by (rule serve_a)
  have 4: "ServeHTTP pf \<lparr>routes = [?R2, ?R1]\<rparr> ''/a/'' = Serve h2 None"
    using assms(4,5) by (rule serve_a2)
  from 1 2 3 4 show ?thesis by (intro exI conjI)
qed


lemma fragment_a_ok: "fragmentCompile ''^/a$'' \<noteq> None"
  by (simp add: fragmentCompile_def closeFrame_def special_def)

lemma fragment_a2_ok: "fragmentCompile ''^/a(/?)$'' \<noteq> None"
  by (simp add: fragmentCompile_def closeFrame_def special_def)

lemma fragment_a_vals:
  "the (fragmentCompile ''^/a$'') ''/a'' = [0, 2]"
  "the (fragmentCompile ''^/a$'') ''/a/'' = []"
  "the (fragmentCompile ''^/a(/?)$'') ''/a/'' = [0, 3, 2, 3]"
  by code_simp+

theorem precedence_same_prefix_witness:
  "the (fragmentCompile ''^/a$'') ''/a'' \<noteq> [] \<and> the (fragmentCompile ''^/a$'') ''/a/'' = []
   \<and> the (fragmentCompile ''^/a(/?)$'') ''/a/'' \<noteq> []
   \<and> (\<exists>r1 r2. Handle fragmentCompile ''/a'' (1::nat) NilInterface NewRouter = Inr r1
           \<and> Handle fragmentCompile ''/a(/?)'' 2 NilInterface r1 = Inr r2
           \<and> ServeHTTP (\<lambda>s. None) r2 ''/a'' = Serve 1 None
           \<and> ServeHTTP (\<lambda>s. None) r2 ''/a/'' = Serve 2 None)"
proof -
  have 1: "fragmentCompile ''^/a$'' = Some (the (fragmentCompile ''^/a$''))"
    using fragment_a_ok by simp
  have 2: "fragmentCompile ''^/a(/?)$'' = Some (the (fragmentCompile ''^/a(/?)$''))"
    using fragment_a2_ok by simp
  have 3: "the (fragmentCompile ''^/a$'') ''/a'' \<noteq> []" by (simp add: fragment_a_vals)
  have 4: "the (fragmentCompile ''^/a$'') ''/a/'' = []" by (simp add: fragment_a_vals)
  have 5: "the (fragmentCompile ''^/a(/?)$'') ''/a/'' \<noteq> []" by (simp add: fragment_a_vals)
  from 3 4 5 precedence_same_prefix [OF 1 2 3 4 5, of "1::nat" 2 "\<lambda>s. None"] show ?thesis by (intro conjI)
qed

lemma readParams_P1:
  "readParams (PointerTo reflect_Struct [\<lparr>Name = ''V1'', FieldKind = reflect_Int, Tag = []\<rparr>,
                                   \<lparr>Name = ''V2'', FieldKind = reflect_Int, Tag = []\<rparr>]) =
    ([''V1'' \<mapsto> 0, ''V2'' \<mapsto> Suc 0],
     Some [\<lparr>Name = ''V1'', FieldKind = reflect_Int, Tag = []\<rparr>,
           \<lparr>Name = ''V2'', FieldKind = reflect_Int, Tag = []\<rparr>], None)"
  by (simp add: readParams_def allowedType_def allowedName_def isLetter_def isWord_def isDigit_def)

lemma readParams_P2:
  "readParams (PointerTo reflect_Struct [\<lparr>Name = ''V1'', FieldKind = reflect_Int, Tag = []\<rparr>,
                                   \<lparr>Name = ''V2'', FieldKind = reflect_String, Tag = []\<rparr>]) =
    ([''V1'' \<mapsto> 0, ''V2'' \<mapsto> Suc 0],
     Some [\<lparr>Name = ''V1'', FieldKind = reflect_Int, Tag = []\<rparr>,
           \<lparr>Name = ''V2'', FieldKind = reflect_String, Tag = []\<rparr>], None)"
  by (simp add: readParams_def allowedType_def allowedName_def isLetter_def isWord_def isDigit_def)

lemma loop_V: "loop [''V1'' \<mapsto> 0, ''V2'' \<mapsto> Suc 0] ''/(V1=.*)/(V2=.*)'' 0 ''/(V1=.*)/(V2=.*)'' initial =
   Inr \<lparr>v_err = None, v_prefix = ''/'', v_paramsIndex = [(0, 0), (1, 1)], v_paramIndex = 2,
              v_groupBegin = 9, v_groupEnd = 16, v_equals = 12, v_parens = 0,
              v_regexpString = ''/(.*)/(.*)'', v_escape = False\<rparr>"
  by code_simp

lemma compile_V: "compilePattern rc ''/(V1=.*)/(V2=.*)'' [''V1'' \<mapsto> 0, ''V2'' \<mapsto> Suc 0] =
    (case rc ''^/(.*)/(.*)$'' of None \<Rightarrow> Inl (RegexpError, [(0, 0), (1, 1)])
     | Some r \<Rightarrow> Inr (r, ''/'', [(0, 0), (1, 1)]))"
  unfolding compilePattern_def loop_V by (simp add: special_def split: option.split)

lemma parse_vals: "ParseInt ''123'' = Some 123" "ParseInt ''abc'' = None"
  by (simp_all add: ParseInt_def ParseUint_def digitsValue_def isDigit_def)


lemma handle_V1:
  assumes "rc ''^/(.*)/(.*)$'' = Some rx"
  shows "Handle rc ''/(V1=.*)/(V2=.*)'' h1
           (PointerTo reflect_Struct [\<lparr>Name = ''V1'', FieldKind = reflect_Int, Tag = []\<rparr>,
                                      \<lparr>Name = ''V2'', FieldKind = reflect_Int, Tag = []\<rparr>])
           NewRouter =
     Inr \<lparr>routes = [\<lparr>handler = h1, prefix = ''/'', re = rx,
                       paramsType = Some [\<lparr>Name = ''V1'', FieldKind = reflect_Int, Tag = []\<rparr>,
                                          \<lparr>Name = ''V2'', FieldKind = reflect_Int, Tag = []\<rparr>],
                       paramsIndex = [(0, 0), (1, 1)]\<rparr>]\<rparr>"
  using assms
  by (simp add: Handle_def newHandler_def readParams_P1 compile_V NewRouter_def
       insertRoute_def Search_def Search_loop.simps)

lemma handle_V2:
  assumes "rc ''^/(.*)/(.*)$'' = Some rx"
  shows "Handle rc ''/(V1=.*)/(V2=.*)'' h2
           (PointerTo reflect_Struct [\<lparr>Name = ''V1'', FieldKind = reflect_Int, Tag = []\<rparr>,
                                      \<lparr>Name = ''V2'', FieldKind = reflect_String, Tag = []\<rparr>])
           \<lparr>routes = [\<lparr>handler = h1, prefix = ''/'', re = rx', paramsType = t1,
                       paramsIndex = x1\<rparr>]\<rparr> =
     Inr \<lparr>routes = [\<lparr>handler = h2, prefix = ''/'', re = rx,
                       paramsType = Some [\<lparr>Name = ''V1'', FieldKind = reflect_Int, Tag = []\<rparr>,
                                          \<lparr>Name = ''V2'', FieldKind = reflect_String, Tag = []\<rparr>],
                       paramsIndex = [(0, 0), (1, 1)]\<rparr>,
                    \<lparr>handler = h1, prefix = ''/'', re = rx', paramsType = t1,
                       paramsIndex = x1\<rparr>]\<rparr>"
  using assms
  by (simp add: Handle_def newHandler_def readParams_P2 compile_V
       insertRoute_def Search_def Search_loop.simps)

lemma extract_V: "extractVals ''/123/abc'' [0, 8, 1, 4, 5, 8] = [''123'', ''abc'']"
  by (simp add: extractVals_def slice_def)

lemma reject_V:
  "setParams pf [\<lparr>Name = ''V1'', FieldKind = reflect_Int, Tag = []\<rparr>,
                 \<lparr>Name = ''V2'', FieldKind = reflect_Int, Tag = []\<rparr>]
     [''123'', ''abc''] [(0, 0), (Suc 0, Suc 0)] [Zero, Zero] = Rejected"
  by (simp add: isIntKind_def parse_vals)

lemma accept_V:
  "setParams pf [\<lparr>Name = ''V1'', FieldKind = reflect_Int, Tag = []\<rparr>,
                 \<lparr>Name = ''V2'', FieldKind = reflect_String, Tag = []\<rparr>]
     [''123'', ''abc''] [(0, 0), (Suc 0, Suc 0)] [Zero, Zero] = Done [IntVal 123, StringVal ''abc'']"
  by (simp add: isIntKind_def isUintKind_def isFloatKind_def parse_vals SetInt_def intBits_def)

lemma serve_V:
  assumes "rx ''/123/abc'' = [0, 8, 1, 4, 5, 8]"
  shows "ServeHTTP pf
     \<lparr>routes = [\<lparr>handler = h2, prefix = ''/'', re = rx,
                       paramsType = Some [\<lparr>Name = ''V1'', FieldKind = reflect_Int, Tag = []\<rparr>,
                                          \<lparr>Name = ''V2'', FieldKind = reflect_String, Tag = []\<rparr>],
                       paramsIndex = [(0, 0), (1, 1)]\<rparr>,
                \<lparr>handler = h1, prefix = ''/'', re = rx,
                       paramsType = Some [\<lparr>Name = ''V1'', FieldKind = reflect_Int, Tag = []\<rparr>,
                                          \<lparr>Name = ''V2'', FieldKind = reflect_Int, Tag = []\<rparr>],
                       paramsIndex = [(0, 0), (1, 1)]\<rparr>]\<rparr> ''/123/abc''
     = Serve h2 (Some [IntVal 123, StringVal ''abc''])"
  using assms
  apply (simp add: ServeHTTP_def Search_def Search_loop.simps)
  apply (subst keepLooking.simps)
  apply (simp add: findMatch.simps HasPrefix_def extract_V reject_V del: setParams.simps)
  apply (subst keepLooking.simps)
  apply (simp add: findMatch.simps HasPrefix_def extract_V accept_V del: setParams.simps)
  done


text \<open>
  Claim C3.  With \<^verbatim>\<open>/(V1=.*)/(V2=.*)\<close> registered first with the struct
  \<^verbatim>\<open>{V1 int; V2 int}\<close> and then with \<^verbatim>\<open>{V1 int; V2 string}\<close>, and an engine that gives
  the offsets of \<^verbatim>\<open>123\<close> and \<^verbatim>\<open>abc\<close> for the path \<^verbatim>\<open>/123/abc\<close>: the route registered
  first stands at index 1 and is rejected, because \<^verbatim>\<open>abc\<close> does not parse as an
  integer, and the search goes on to the second route, whose handler is called with
  \<^verbatim>\<open>V1 = 123\<close> and \<^verbatim>\<open>V2 = "abc"\<close>.
\<close>

theorem backtracking_on_type_mismatch:
  assumes "rc ''^/(.*)/(.*)$'' = Some rx" and "rx ''/123/abc'' = [0, 8, 1, 4, 5, 8]"
  shows "\<exists>r1 r2.
           Handle rc ''/(V1=.*)/(V2=.*)'' h1 (PointerTo reflect_Struct fieldsP1) NewRouter = Inr r1
         \<and> Handle rc ''/(V1=.*)/(V2=.*)'' h2 (PointerTo reflect_Struct fieldsP2) r1 = Inr r2
         \<and> handler (routes r2 ! 1) = h1
         \<and> ParseInt ''abc'' = None
         \<and> setParams pf (the (paramsType (routes r2 ! 1)))
               (extractVals ''/123/abc'' (re (routes r2 ! 1) ''/123/abc''))
               (paramsIndex (routes r2 ! 1)) [Zero, Zero] = Rejected
         \<and> ServeHTTP pf r2 ''/123/abc'' = Serve h2 (Some [IntVal 123, StringVal ''abc''])"
proof -
  let ?Q1 = "\<lparr>handler = h1, prefix = ''/'', re = rx, paramsType = Some fieldsP1,
               paramsIndex = [(0, 0), (1, 1)]\<rparr>"
  let ?Q2 = "\<lparr>handler = h2, prefix = ''/'', re = rx, paramsType = Some fieldsP2,
               paramsIndex = [(0, 0), (1, 1)]\<rparr>"
  have 1: "Handle rc ''/(V1=.*)/(V2=.*)'' h1 (PointerTo reflect_Struct fieldsP1) NewRouter
             = Inr \<lparr>routes = [?Q1]\<rparr>"
    using assms(1) by (rule handle_V1)
  have 2: "Handle rc ''/(V1=.*)/(V2=.*)'' h2 (PointerTo reflect_Struct fieldsP2) \<lparr>routes = [?Q1]\<rparr>
             = Inr \<lparr>routes = [?Q2, ?Q1]\<rparr>"
    using assms(1) by (rule handle_V2)
  have 3: "handler (routes \<lparr>routes = [?Q2, ?Q1]\<rparr> ! 1) = h1" by simp
  have 4: "ParseInt ''abc'' = None" by (rule parse_vals)
  have 5: "setParams pf (the (paramsType (routes \<lparr>routes = [?Q2, ?Q1]\<rparr> ! 1)))
               (extractVals ''/123/abc'' (re (routes \<lparr>routes = [?Q2, ?Q1]\<rparr> ! 1) ''/123/abc''))
               (paramsIndex (routes \<lparr>routes = [?Q2, ?Q1]\<rparr> ! 1)) [Zero, Zero] = Rejected"
    using reject_V [of pf] by (simp add: assms(2) extract_V del: setParams.simps)
  have 6: "ServeHTTP pf \<lparr>routes = [?Q2, ?Q1]\<rparr> ''/123/abc''
             = Serve h2 (Some [IntVal 123, StringVal ''abc''])"
    using assms(2) by (rule serve_V)
  from 1 2 3 4 5 6 show ?thesis by (intro exI conjI)
qed

lemma fragment_V_ok: "fragmentCompile ''^/(.*)/(.*)$'' \<noteq> None"
  by (simp add: fragmentCompile_def closeFrame_def special_def)

lemma fragment_V_val: "the (fragmentCompile ''^/(.*)/(.*)$'') ''/123/abc'' = [0, 8, 1, 4, 5, 8]"
  by code_simp

theorem backtracking_on_type_mismatch_witness:
  "the (fragmentCompile ''^/(.*)/(.*)$'') ''/123/abc'' = [0, 8, 1, 4, 5, 8] \<and>
   (\<exists>r1 r2.
           Handle fragmentCompile ''/(V1=.*)/(V2=.*)'' (1::nat) (PointerTo reflect_Struct fieldsP1) NewRouter = Inr r1
         \<and> Handle fragmentCompile ''/(V1=.*)/(V2=.*)'' 2 (PointerTo reflect_Struct fieldsP2) r1 = Inr r2
         \<and> handler (routes r2 ! 1) = 1
         \<and> ParseInt ''abc'' = None
         \<and> setParams (\<lambda>s. None) (the (paramsType (routes r2 ! 1)))
               (extractVals ''/123/abc'' (re (routes r2 ! 1) ''/123/abc''))
               (paramsIndex (routes r2 ! 1)) [Zero, Zero] = Rejected
         \<and> ServeHTTP (\<lambda>s. None) r2 ''/123/abc'' = Serve 2 (Some [IntVal 123, StringVal ''abc'']))"
proof -
  have 1: "fragmentCompile ''^/(.*)/(.*)$'' = Some (the (fragmentCompile ''^/(.*)/(.*)$''))"
    using fragment_V_ok by simp
  from fragment_V_val
    backtracking_on_type_mismatch [where rc = fragmentCompile and rx = "the (fragmentCompile ''^/(.*)/(.*)$'')"
          and ?h1.0 = "1::nat" and ?h2.0 = 2 and pf = "\<lambda>s. None", OF 1 fragment_V_val]
  show ?thesis by (intro conjI)
qed

section \<open>A registration history\<close>

lemma newHandler_a:
  assumes "rc ''^/a$'' = Some re1"
  shows "newHandler rc ''/a'' h1 NilInterface =
     Inr \<lparr>handler = h1, prefix = ''/a'', re = re1, paramsType = None, paramsIndex = []\<rparr>"
  using assms by (simp add: newHandler_def readParams_def compile_a)

lemma newHandler_a2:
  assumes "rc ''^/a(/?)$'' = Some re2"
  shows "newHandler rc ''/a(/?)'' h2 NilInterface =
     Inr \<lparr>handler = h2, prefix = ''/a'', re = re2, paramsType = None, paramsIndex = []\<rparr>"
  using assms by (simp add: newHandler_def readParams_def compile_a2)

theorem route_table_order_witness:
  "registered fragmentCompile
     [\<lparr>handler = 1::nat, prefix = ''/a'', re = the (fragmentCompile ''^/a$''), paramsType = None,
        paramsIndex = []\<rparr>,
      \<lparr>handler = 2, prefix = ''/a'', re = the (fragmentCompile ''^/a(/?)$''), paramsType = None,
        paramsIndex = []\<rparr>]
     \<lparr>routes =
       [\<lparr>handler = 2, prefix = ''/a'', re = the (fragmentCompile ''^/a(/?)$''), paramsType = None,
          paramsIndex = []\<rparr>,
        \<lparr>handler = 1, prefix = ''/a'', re = the (fragmentCompile ''^/a$''), paramsType = None,
          paramsIndex = []\<rparr>]\<rparr>
   \<and> sorted [''/a'', ''/a'']
   \<and> map handler (filter (\<lambda>x. prefix x = ''/a'')
       [\<lparr>handler = 2::nat, prefix = ''/a'', re = the (fragmentCompile ''^/a(/?)$''), paramsType = None,
          paramsIndex = []\<rparr>,
        \<lparr>handler = 1, prefix = ''/a'', re = the (fragmentCompile ''^/a$''), paramsType = None,
          paramsIndex = []\<rparr>]) = [2, 1]"
proof -
  let ?R1 = "\<lparr>handler = 1::nat, prefix = ''/a'', re = the (fragmentCompile ''^/a$''),
               paramsType = None, paramsIndex = []\<rparr>"
  let ?R2 = "\<lparr>handler = 2::nat, prefix = ''/a'', re = the (fragmentCompile ''^/a(/?)$''),
               paramsType = None, paramsIndex = []\<rparr>"
  have 1: "fragmentCompile ''^/a$'' = Some (the (fragmentCompile ''^/a$''))"
    using fragment_a_ok by simp
  have 2: "fragmentCompile ''^/a(/?)$'' = Some (the (fragmentCompile ''^/a(/?)$''))"
    using fragment_a2_ok by simp
  have r0: "registered fragmentCompile [] (NewRouter :: nat RegexpRouter)"
    by (rule registered_new)
  have r1: "registered fragmentCompile ([] @ [?R1]) \<lparr>routes = [?R1]\<rparr>"
    using r0 newHandler_a [where rc = fragmentCompile, OF 1] handle_a [where rc = fragmentCompile, OF 1]
    by (rule registered_Handle)
  have r2: "registered fragmentCompile (([] @ [?R1]) @ [?R2]) \<lparr>routes = [?R2, ?R1]\<rparr>"
    using r1 newHandler_a2 [where rc = fragmentCompile, OF 2]
      handle_a2 [where rc = fragmentCompile, OF 2]
    by (rule registered_Handle)
  then have r: "registered fragmentCompile [?R1, ?R2] \<lparr>routes = [?R2, ?R1]\<rparr>" by simp
  from route_table_order [OF r] have "sorted (map prefix (routes \<lparr>routes = [?R2, ?R1]\<rparr>))"
     and f: "filter (\<lambda>x. prefix x = ''/a'') (routes \<lparr>routes = [?R2, ?R1]\<rparr>)
           = rev (filter (\<lambda>x. prefix x = ''/a'') [?R1, ?R2])"
    by blast+
  then have s: "sorted [''/a'', ''/a'']" by simp
  from f have "map handler (filter (\<lambda>x. prefix x = ''/a'') [?R2, ?R1]) = [2, 1]" by simp
  with r s show ?thesis by (intro conjI)
qed

end
